theory Spec2Isabelle
  imports Main "HOL-Library.Sublist" "HOL-Library.Word" "HOL-Library.Char_ord"
    "HOL-Library.List_Lexorder"
begin

text \<open>
  The gamelist database of EmulationStation (\<open>es-app/src/GamelistDB.cpp\<close>): a table
  \<open>files\<close> of game and folder records keyed by file identifier and collection, filled by
  scanning a collection's directory, refreshed against the disk, read and written one record
  at a time, and fed from an interchange document. The functions of the file are embedded
  as functions on an explicit connection state; exceptions are results of type
  \<open>error + _\<close>. The parts of the SQL engine, of the filesystem and of the document
  parser that the functions rely on are modelled next to them and described where they
  are introduced.
\<close>

section \<open>Paths and file identifiers\<close>

text \<open>
  A \<open>boost::filesystem::path\<close> is modelled by its generic string (POSIX form, \<open>/\<close> as
  the separator), so \<open>generic_string()\<close> is the identity.
\<close>

type_synonym path = string

text \<open>The collection handed in by the application (\<open>SystemData\<close>): only its getters are used.\<close>

record SystemData =
  getName :: string
  getStartPath :: path
  getExtensions :: "string list"

text \<open>\<open>operator/\<close> of the path class: a separator is added unless the left side is empty or ends with one.\<close>

definition path_append :: "path \<Rightarrow> string \<Rightarrow> path" where
  "path_append dir name =
     (if dir = [] then name
      else if last dir = CHR ''/'' then dir @ name
      else dir @ ''/'' @ name)"

text \<open>
  \<open>path::extension()\<close>: empty for the names \<open>.\<close> and \<open>..\<close> and for a name without a
  dot, else the part of the file name from its last dot on.
\<close>

definition extension :: "string \<Rightarrow> string" where
  "extension name =
     (if name = ''.'' then []
      else if name = ''..'' then []
      else if CHR ''.'' \<in> set name
        then CHR ''.'' # rev (takeWhile (\<lambda>c. c \<noteq> CHR ''.'') (rev name))
      else [])"

text \<open>
  Modelled from the spec: \<open>makeRelativePath\<close> and \<open>resolvePath\<close>, which
  \<open>GamelistDB.cpp\<close> calls and does not define. The spec has the identifier "equal to the
  relative path when inside the root, otherwise an absolute path", and has the inverse join
  to the collection root the "identifiers starting with the relative-path marker" and leave
  the others alone. The marker is the leading \<open>.\<close> that \<open>updateExists\<close> and \<open>exportXML\<close>
  test an identifier for before they put the collection root in front of it. The spec does
  not describe the home directory, so the \<open>allowHome\<close> flag has no effect here.
\<close>

definition makeRelativePath :: "path \<Rightarrow> path \<Rightarrow> bool \<Rightarrow> path" where
  "makeRelativePath p relativeTo allowHome =
     (if p = relativeTo then ''.''
      else if prefix (relativeTo @ ''/'') p then ''./'' @ drop (length relativeTo + 1) p
      else p)"

definition resolvePath :: "path \<Rightarrow> path \<Rightarrow> bool \<Rightarrow> path" where
  "resolvePath p relativeTo allowHome =
     (if p = ''.'' then relativeTo
      else if prefix ''./'' p then relativeTo @ ''/'' @ drop 2 p
      else p)"

definition pathToFileID :: "path \<Rightarrow> path \<Rightarrow> string" where
  "pathToFileID p systemStartPath = makeRelativePath p systemStartPath False"

definition fileIDToPath :: "string \<Rightarrow> 'a SystemData_scheme \<Rightarrow> path" where
  "fileIDToPath fileID system = resolvePath fileID (getStartPath system) True"

text \<open>A path that is the collection root or lies below it.\<close>

definition under_root :: "path \<Rightarrow> path \<Rightarrow> bool" where
  "under_root p r \<longleftrightarrow> p = r \<or> prefix (r @ ''/'') p"


section \<open>The table \<open>files\<close>\<close>

datatype FileType = GAME | FOLDER

datatype MetaDataListType = GAME_METADATA | FOLDER_METADATA

datatype MetaDataType =
  MD_STRING | MD_MULTILINE_STRING | MD_IMAGE_PATH | MD_INT | MD_RATING | MD_FLOAT
  | MD_DATE | MD_TIME

record MetaDataDecl =
  key :: string
  mdtype :: MetaDataType
  defaultValue :: string

text \<open>
  What is stored in column \<open>filetype\<close>. The scanner binds an enumerator of \<open>FileType\<close>,
  \<open>setFileData\<close> binds the truth value of \<open>getType() == FOLDER_METADATA\<close>. The integer
  values of the enumerators are not fixed in \<open>GamelistDB.cpp\<close>, hence kept symbolic.
\<close>

datatype filetype_value = Enum FileType | Flag bool

text \<open>
  One row: the four fixed columns and, in column order, one value per catalogue column
  (\<open>None\<close> is SQL NULL). A value is the text that was bound or declared as the default.
  In a column of type \<open>VARCHAR\<close> the engine keeps the text as it is; in a column of type
  \<open>INT\<close> or \<open>FLOAT\<close> it stores the number it reads from the text, which may read back as
  another text (\<open>0\<close> in a \<open>FLOAT\<close> column as \<open>0.0\<close>). The examples below have columns of
  type \<open>VARCHAR\<close> only.
\<close>

record row =
  fileid :: string
  systemid :: string
  filetype :: filetype_value
  fileexists :: "int option"
  mdvalues :: "string option list"

type_synonym table = "row list"

text \<open>
  What the engine answers to a call whose result code the program checks (a bind, a step of
  an insert or update, a reset, a commit): success, an error, or an error on which the engine
  has rolled the open transaction back (as it does when the disk is full).
\<close>

datatype answer = Done | Failed | RolledBack

text \<open>
  The connection (\<open>sqlite3* mDB\<close>): the catalogue columns of the table with their
  \<open>DEFAULT\<close>, the committed rows, the rows as seen inside an open transaction, and the
  answers the engine is going to give to the checked calls to come, in order (once they are
  used up every call succeeds).
\<close>

record sqlite3 =
  columns :: "(string \<times> string option) list"
  stored :: table
  active :: "table option"
  answers :: "answer list"

text \<open>
  The throw sites of \<open>DBException\<close>: preparing a statement, \<open>step_expected\<close>, \<open>reset\<close>,
  beginning and committing a transaction, committing twice, and in \<open>add_file\<close> the binds
  and the step.
\<close>

datatype DBError =
  PrepareError | StepFailed | ResetError | BeginError | CommitError | AlreadyCommitted
  | BindError | AddFileError

datatype ESError = XMLNotFound | XMLParseError | NoGameListNode

text \<open>
  Everything that leaves a function other than by returning: the two exception classes of
  the program, an exception of the filesystem library, a failed \<open>assert\<close> (assertions
  being compiled in), a
  \<open>std::string\<close> built from a null pointer, \<open>std::terminate\<close> (an exception leaving a
  destructor during unwinding), and \<open>unmodelled\<close> for SQL text outside the fragment of the
  engine described below.
\<close>

datatype error =
  DBException DBError | ESException ESError | filesystem_error | assertion_failed
  | null_string | terminate | unmodelled

text \<open>
  \<open>createTables\<close> on a fresh database: the table has the four fixed columns and then one
  column per entry of the catalogue of kind game, with a \<open>DEFAULT\<close> where the entry has a
  non-empty default value and is neither a date nor a time. The connection state keeps the
  catalogue columns and their defaults.
\<close>

definition column_default :: "MetaDataDecl \<Rightarrow> string option" where
  "column_default d =
     (case mdtype d of
        MD_DATE \<Rightarrow> None
      | MD_TIME \<Rightarrow> None
      | _ \<Rightarrow> (if defaultValue d = [] then None else Some (defaultValue d)))"

definition createTables :: "MetaDataDecl list \<Rightarrow> sqlite3" where
  "createTables decl =
     \<lparr>columns = map (\<lambda>d. (key d, column_default d)) decl, stored = [], active = None,
      answers = []\<rparr>"

definition column_names :: "sqlite3 \<Rightarrow> string list" where
  "column_names db = [''fileid'', ''systemid'', ''filetype'', ''fileexists''] @ map fst (columns db)"

definition row_key :: "row \<Rightarrow> string \<times> string" where
  "row_key r = (fileid r, systemid r)"

definition current :: "sqlite3 \<Rightarrow> table" where
  "current db = (case active db of Some t \<Rightarrow> t | None \<Rightarrow> stored db)"

text \<open>A write goes to the open transaction, or straight to the committed rows (autocommit).\<close>

definition db_write :: "(table \<Rightarrow> table) \<Rightarrow> sqlite3 \<Rightarrow> sqlite3" where
  "db_write f db =
     (case active db of
        Some t \<Rightarrow> db\<lparr>active := Some (f t)\<rparr>
      | None \<Rightarrow> db\<lparr>stored := f (stored db)\<rparr>)"

definition insert_or_ignore :: "row \<Rightarrow> table \<Rightarrow> table" where
  "insert_or_ignore r t = (if row_key r \<in> set (map row_key t) then t else t @ [r])"

definition insert_or_replace :: "row \<Rightarrow> table \<Rightarrow> table" where
  "insert_or_replace r t = filter (\<lambda>x. row_key x \<noteq> row_key r) t @ [r]"

definition update_fileexists :: "int \<Rightarrow> string \<Rightarrow> string \<Rightarrow> table \<Rightarrow> table" where
  "update_fileexists v fid sid t =
     map (\<lambda>r. if fileid r = fid \<and> systemid r = sid then r\<lparr>fileexists := Some v\<rparr> else r) t"

text \<open>
  \<open>INSERT ... ON CONFLICT (fileid, systemid) DO UPDATE SET c = NULL\<close>, \<open>c\<close> being the
  catalogue column number \<open>i\<close>: a row with the key that is already there gets NULL in that
  column, otherwise the new row is inserted.
\<close>

definition insert_or_null :: "nat \<Rightarrow> row \<Rightarrow> table \<Rightarrow> table" where
  "insert_or_null i r t =
     (if row_key r \<in> set (map row_key t)
      then map (\<lambda>x. if row_key x = row_key r then x\<lparr>mdvalues := (mdvalues x)[i := None]\<rparr> else x) t
      else t @ [r])"

text \<open>The next answer of the engine to a checked call.\<close>

definition next_answer :: "sqlite3 \<Rightarrow> answer \<times> sqlite3" where
  "next_answer db =
     (case answers db of
        [] \<Rightarrow> (Done, db)
      | a # rest \<Rightarrow> (a, db\<lparr>answers := rest\<rparr>))"

text \<open>
  \<open>sqlite3_bind_text\<close>, \<open>sqlite3_bind_int\<close> and \<open>sqlite3_reset\<close> change no row and
  leave an open transaction as it is, whatever they answer.
\<close>

definition sqlite3_bind :: "sqlite3 \<Rightarrow> answer \<times> sqlite3" where
  "sqlite3_bind db = next_answer db"

definition sqlite3_reset :: "sqlite3 \<Rightarrow> answer \<times> sqlite3" where
  "sqlite3_reset db = next_answer db"

text \<open>
  \<open>sqlite3_step\<close> on an insert or update that changes the table by \<open>f\<close>: the change is
  made when the engine answers with success; on an error nothing is changed; on an error
  with rollback the open transaction is gone as well.
\<close>

definition sqlite3_step :: "(table \<Rightarrow> table) \<Rightarrow> sqlite3 \<Rightarrow> answer \<times> sqlite3" where
  "sqlite3_step f db =
     (case next_answer db of
        (a, db') \<Rightarrow>
          (case a of
             Done \<Rightarrow> (Done, db_write f db')
           | Failed \<Rightarrow> (Failed, db')
           | RolledBack \<Rightarrow> (RolledBack, db'\<lparr>active := None\<rparr>)))"


section \<open>SQL text and prepared statements\<close>

text \<open>
  The engine is modelled on the five statement shapes this program issues. Three of them
  carry an operand that the program writes into the text. The operand is read as
  \<^item> a string literal in single quotes (no quote inside): the text between the quotes;
  \<^item> a decimal integer without leading zero, at most 18 digits: stored in and compared with
    the text column \<open>systemid\<close> as its digits;
  \<^item> bare words separated by single blanks, none of them a column of the table, a row-id
    alias or a word that is an expression by itself: no expression, the statement is rejected;
  \<^item> a string literal followed by \<open>, ?2) ON CONFLICT (fileid, systemid) DO UPDATE SET c = NULL --\<close>
    for a catalogue column \<open>c\<close>: in the insert the text closes the list of values, adds
    an upsert clause and turns the rest of the line into a comment; after \<open>WHERE\<close> it is
    no expression;
  \<^item> anything else is outside the fragment.
\<close>

datatype operand = Literal string | Rejected | Upsert string string | Unsupported

definition is_digit :: "char \<Rightarrow> bool" where
  "is_digit c \<longleftrightarrow> c \<in> set ''0123456789''"

definition is_alpha :: "char \<Rightarrow> bool" where
  "is_alpha c \<longleftrightarrow> c \<in> set ''abcdefghijklmnopqrstuvwxyzABCDEFGHIJKLMNOPQRSTUVWXYZ''"

definition lower :: "char \<Rightarrow> char" where
  "lower c =
     (case map_of (zip ''ABCDEFGHIJKLMNOPQRSTUVWXYZ'' ''abcdefghijklmnopqrstuvwxyz'') c of
        Some d \<Rightarrow> d
      | None \<Rightarrow> c)"

definition quote :: char where
  "quote = CHR 0x27"

definition string_literal :: "string \<Rightarrow> bool" where
  "string_literal s \<longleftrightarrow>
     2 \<le> length s \<and> hd s = quote \<and> last s = quote \<and> quote \<notin> set (butlast (tl s))"

definition integer_literal :: "string \<Rightarrow> bool" where
  "integer_literal s \<longleftrightarrow>
     s \<noteq> [] \<and> length s \<le> 18 \<and> list_all is_digit s
     \<and> (if s = ''0'' then True else hd s \<noteq> CHR ''0'')"

definition plain_word :: "string \<Rightarrow> bool" where
  "plain_word s \<longleftrightarrow>
     s \<noteq> [] \<and> (is_alpha (hd s) \<or> hd s = CHR ''_'')
     \<and> list_all (\<lambda>c. is_alpha c \<or> is_digit c \<or> c = CHR ''_'') s"

definition expression_words :: "string list" where
  "expression_words =
     [''rowid'', ''oid'', ''_rowid_'', ''null'', ''true'', ''false'',
      ''current_date'', ''current_time'', ''current_timestamp'']"

fun split_blank :: "string \<Rightarrow> string list" where
  "split_blank [] = [[]]"
| "split_blank (c # cs) =
     (if c = CHR '' '' then [] # split_blank cs
      else (case split_blank cs of w # ws \<Rightarrow> (c # w) # ws | [] \<Rightarrow> [[c]]))"

definition unknown_word :: "string list \<Rightarrow> string \<Rightarrow> bool" where
  "unknown_word cols w \<longleftrightarrow>
     plain_word w \<and> map lower w \<notin> set (map (map lower) cols @ expression_words)"

definition upsert_mid :: string where
  "upsert_mid = '', ?2) ON CONFLICT (fileid, systemid) DO UPDATE SET ''"

definition upsert_end :: string where
  "upsert_end = '' = NULL --''"

text \<open>The literal and the column of an operand of the upsert form, over the catalogue columns.\<close>

definition upsert_operand :: "string list \<Rightarrow> string \<Rightarrow> (string \<times> string) option" where
  "upsert_operand catalogue s =
     (case s of
        [] \<Rightarrow> None
      | c # cs \<Rightarrow>
          (let lit = takeWhile (\<lambda>x. x \<noteq> quote) cs;
               rest = drop (Suc (length lit)) cs;
               tail = drop (length upsert_mid) rest;
               col = take (length tail - length upsert_end) tail
           in if c = quote \<and> length lit < length cs \<and> prefix upsert_mid rest
                 \<and> suffix upsert_end tail \<and> col \<in> set catalogue
              then Some (lit, col) else None))"

text \<open>The operand over the columns of the table, the catalogue columns being those after the four fixed ones.\<close>

definition sql_operand :: "string list \<Rightarrow> string \<Rightarrow> operand" where
  "sql_operand cols s =
     (if string_literal s then Literal (butlast (tl s))
      else if integer_literal s then Literal s
      else if list_all (unknown_word cols) (split_blank s) then Rejected
      else (case upsert_operand (drop 4 cols) s of
              Some (lit, col) \<Rightarrow> Upsert lit col
            | None \<Rightarrow> Unsupported))"

fun position :: "'a \<Rightarrow> 'a list \<Rightarrow> nat" where
  "position x [] = 0"
| "position x (y # ys) = (if x = y then 0 else Suc (position x ys))"

text \<open>
  Prepared statements: the two forms of the scanner's insert (with the collection identifier
  it writes, and the number of the catalogue column an upsert clause sets to NULL), the two
  statements of the refresh (with the collection identifier they compare with), the lookup
  of one row and the insert-or-replace of one row.
\<close>

datatype stmt =
  InsertIgnore string | InsertUpsert string nat | SelectFileid string | UpdateExists string
  | SelectRow | InsertReplace

definition insert_head :: string where
  "insert_head = ''INSERT OR IGNORE INTO files (fileid, systemid, filetype) VALUES (?1, ''"

definition insert_tail :: string where
  "insert_tail = '', ?2)''"

definition select_head :: string where
  "select_head = ''SELECT fileid FROM files WHERE systemid = ''"

definition update_head :: string where
  "update_head = ''UPDATE files SET fileexists = ?1 WHERE fileid = ?2 AND systemid = ''"

definition select_row_sql :: string where
  "select_row_sql = ''SELECT * FROM files WHERE fileid = ?1 AND systemid = ?2''"

definition replace_head :: string where
  "replace_head = ''INSERT OR REPLACE INTO files VALUES (?1, ?2, ?3, ?4, ''"

fun show_nat :: "nat \<Rightarrow> string" where
  "show_nat n =
     (if n < 10 then [''0123456789'' ! n]
      else show_nat (n div 10) @ [''0123456789'' ! (n mod 10)])"

declare show_nat.simps [simp del]

text \<open>The loop of \<open>setFileData\<close> that writes \<open>?5, ?6, ...\<close>, one per catalogue entry.\<close>

fun placeholders :: "nat \<Rightarrow> nat \<Rightarrow> string" where
  "placeholders i 0 = []"
| "placeholders i (Suc n) =
     ''?'' @ show_nat (i + 5) @ (if n = 0 then [] else '', '') @ placeholders (Suc i) n"

definition replace_sql :: "nat \<Rightarrow> string" where
  "replace_sql n = replace_head @ placeholders 0 n @ '')''"

definition with_operand :: "(string \<Rightarrow> stmt) \<Rightarrow> string list \<Rightarrow> string \<Rightarrow> error + stmt" where
  "with_operand mk cols s =
     (case sql_operand cols s of
        Literal v \<Rightarrow> Inr (mk v)
      | Rejected \<Rightarrow> Inl (DBException PrepareError)
      | Upsert lit col \<Rightarrow> Inl (DBException PrepareError)
      | Unsupported \<Rightarrow> Inl unmodelled)"

definition insert_operand :: "string list \<Rightarrow> string \<Rightarrow> error + stmt" where
  "insert_operand cols s =
     (case sql_operand cols s of
        Literal v \<Rightarrow> Inr (InsertIgnore v)
      | Rejected \<Rightarrow> Inl (DBException PrepareError)
      | Upsert lit col \<Rightarrow> Inr (InsertUpsert lit (position col (drop 4 cols)))
      | Unsupported \<Rightarrow> Inl unmodelled)"

text \<open>
  The constructor of \<open>SQLPreparedStmt\<close>: \<open>sqlite3_prepare_v2\<close> on the text, a
  \<open>DBException\<close> when it reports an error. \<open>INSERT OR REPLACE ... VALUES\<close> is accepted
  when it supplies one value per column of the table.
\<close>

definition SQLPreparedStmt :: "sqlite3 \<Rightarrow> string \<Rightarrow> error + stmt" where
  "SQLPreparedStmt db sql =
     (let rest = drop (length insert_head) sql in
      if prefix insert_head sql \<and> suffix insert_tail rest
        then insert_operand (column_names db) (take (length rest - length insert_tail) rest)
      else if prefix select_head sql
        then with_operand SelectFileid (column_names db) (drop (length select_head) sql)
      else if prefix update_head sql
        then with_operand UpdateExists (column_names db) (drop (length update_head) sql)
      else if sql = select_row_sql then Inr SelectRow
      else if list_ex (\<lambda>n. sql = replace_sql n) [0..<Suc (length sql)]
        then (if 0 < length (columns db) \<and> sql = replace_sql (length (columns db))
              then Inr InsertReplace
              else Inl (DBException PrepareError))
      else Inl unmodelled)"


section \<open>Transactions\<close>

text \<open>
  \<open>BEGIN TRANSACTION\<close> writes nothing; the engine refuses it inside a transaction.
  \<open>COMMIT TRANSACTION\<close> is refused when no transaction is open (also when the engine has
  rolled it back itself). With a transaction open it is a checked call as a step is: on
  success the rows of the transaction become the committed rows, on an error the transaction
  stays open, or is rolled back.

  The constructor of \<open>SQLTransaction\<close>: \<open>BEGIN TRANSACTION\<close>.
\<close>

definition SQLTransaction :: "sqlite3 \<Rightarrow> error + sqlite3" where
  "SQLTransaction db =
     (case active db of
        Some t \<Rightarrow> Inl (DBException BeginError)
      | None \<Rightarrow> Inr (db\<lparr>active := Some (stored db)\<rparr>))"

text \<open>
  \<open>SQLTransaction::commit\<close> on a transaction object that has not been committed yet. When
  it throws, \<open>mDB\<close> stays set and the object counts as not committed.
\<close>

definition commit :: "sqlite3 \<Rightarrow> (error + unit) \<times> sqlite3" where
  "commit db =
     (case active db of
        None \<Rightarrow> (Inl (DBException CommitError), db)
      | Some t \<Rightarrow>
          (case next_answer db of
             (a, db') \<Rightarrow>
               (case a of
                  Done \<Rightarrow> (Inr (), db'\<lparr>stored := t, active := None\<rparr>)
                | Failed \<Rightarrow> (Inl (DBException CommitError), db')
                | RolledBack \<Rightarrow> (Inl (DBException CommitError), db'\<lparr>active := None\<rparr>))))"

text \<open>
  The destructor of a transaction object whose \<open>mDB\<close> is still set, that is, one that was
  not committed: it calls \<open>commit\<close>.
\<close>

definition SQLTransaction_dtor :: "sqlite3 \<Rightarrow> (error + unit) \<times> sqlite3" where
  "SQLTransaction_dtor db = commit db"

text \<open>
  An exception \<open>e\<close> leaving the scope of an uncommitted transaction object: the destructor
  runs first; an exception out of the destructor ends the program.
\<close>

definition unwind :: "error \<Rightarrow> sqlite3 \<Rightarrow> (error + 'a) \<times> sqlite3" where
  "unwind e db =
     (case SQLTransaction_dtor db of
        (Inl e', db') \<Rightarrow> (Inl terminate, db')
      | (Inr u, db') \<Rightarrow> (Inl e, db'))"


section \<open>Scanning\<close>

text \<open>
  The directory tree as the directory iterator shows it: a regular file, a directory with
  its entries in iteration order, or a directory that cannot be listed (the iterator's
  constructor throws).
\<close>

datatype node = File | Dir "(string \<times> node) list" | Unreadable

fun is_directory :: "node \<Rightarrow> bool" where
  "is_directory File = False"
| "is_directory (Dir es) = True"
| "is_directory Unreadable = True"

text \<open>A bare row as \<open>INSERT OR IGNORE INTO files (fileid, systemid, filetype)\<close> makes it.\<close>

definition bare_row :: "sqlite3 \<Rightarrow> string \<Rightarrow> string \<Rightarrow> filetype_value \<Rightarrow> row" where
  "bare_row db fid sid ft =
     \<lparr>fileid = fid, systemid = sid, filetype = ft, fileexists = None,
      mdvalues = map snd (columns db)\<rparr>"

text \<open>
  What a step of the insert statement does to the table once \<open>add_file\<close> has bound the
  identifier and, whatever \<open>filetype\<close> it was given, the enumerator \<open>FileType::GAME\<close>.
\<close>

fun insert_step :: "stmt \<Rightarrow> sqlite3 \<Rightarrow> string \<Rightarrow> (table \<Rightarrow> table) option" where
  "insert_step (InsertIgnore sid) db fid = Some (insert_or_ignore (bare_row db fid sid (Enum GAME)))"
| "insert_step (InsertUpsert sid i) db fid = Some (insert_or_null i (bare_row db fid sid (Enum GAME)))"
| "insert_step st db fid = None"

text \<open>
  \<open>add_file\<close>: bind the identifier, bind the kind, step, reset, each call checked and
  answered with a \<open>DBException\<close> when it fails.
\<close>

definition add_file :: "string \<Rightarrow> FileType \<Rightarrow> sqlite3 \<Rightarrow> stmt \<Rightarrow> (error + unit) \<times> sqlite3" where
  "add_file fid ft db insert_stmt =
     (case insert_step insert_stmt db fid of
        None \<Rightarrow> (Inl unmodelled, db)
      | Some f \<Rightarrow>
          (case sqlite3_bind db of
             (a1, db1) \<Rightarrow>
               if a1 = Done
               then (case sqlite3_bind db1 of
                       (a2, db2) \<Rightarrow>
                         if a2 = Done
                         then (case sqlite3_step f db2 of
                                 (a3, db3) \<Rightarrow>
                                   if a3 = Done
                                   then (case sqlite3_reset db3 of
                                           (a4, db4) \<Rightarrow>
                                             if a4 = Done then (Inr (), db4)
                                             else (Inl (DBException ResetError), db4))
                                   else (Inl (DBException AddFileError), db3))
                         else (Inl (DBException BindError), db2))
               else (Inl (DBException BindError), db1)))"

fun populate_recursive ::
    "path \<Rightarrow> string list \<Rightarrow> path \<Rightarrow> node \<Rightarrow> sqlite3 \<Rightarrow> stmt \<Rightarrow> (error + bool) \<times> sqlite3"
  and populate_entries ::
    "path \<Rightarrow> string list \<Rightarrow> path \<Rightarrow> (string \<times> node) list \<Rightarrow> bool \<Rightarrow> sqlite3 \<Rightarrow> stmt
      \<Rightarrow> (error + bool) \<times> sqlite3"
where
  "populate_recursive relativeTo exts start_dir (Dir es) db st =
     (case populate_entries relativeTo exts start_dir es False db st of
        (Inl e, db') \<Rightarrow> (Inl e, db')
      | (Inr has_a_file, db') \<Rightarrow>
          (if has_a_file
           then (case add_file (pathToFileID start_dir relativeTo) FOLDER db' st of
                   (Inl e, db'') \<Rightarrow> (Inl e, db'')
                 | (Inr u, db'') \<Rightarrow> (Inr True, db''))
           else (Inr False, db')))"
| "populate_recursive relativeTo exts start_dir File db st = (Inl filesystem_error, db)"
| "populate_recursive relativeTo exts start_dir Unreadable db st = (Inl filesystem_error, db)"
| "populate_entries relativeTo exts start_dir [] has_a_file db st = (Inr has_a_file, db)"
| "populate_entries relativeTo exts start_dir ((name, n) # es) has_a_file db st =
     (if is_directory n
      then (case populate_recursive relativeTo exts (path_append start_dir name) n db st of
              (Inl e, db') \<Rightarrow> (Inl e, db')
            | (Inr b, db') \<Rightarrow>
                populate_entries relativeTo exts start_dir es (if b then True else has_a_file) db' st)
      else if extension name \<notin> set exts
        then populate_entries relativeTo exts start_dir es has_a_file db st
      else (case add_file (pathToFileID (path_append start_dir name) relativeTo) GAME db st of
              (Inl e, db') \<Rightarrow> (Inl e, db')
            | (Inr u, db') \<Rightarrow> populate_entries relativeTo exts start_dir es True db' st))"

definition insert_sql :: "'a SystemData_scheme \<Rightarrow> string" where
  "insert_sql system = insert_head @ getName system @ insert_tail"

definition addMissingFiles :: "'a SystemData_scheme \<Rightarrow> node \<Rightarrow> sqlite3 \<Rightarrow> (error + unit) \<times> sqlite3" where
  "addMissingFiles system tree db =
     (let relativeTo = getStartPath system; extensions = getExtensions system in
      case SQLPreparedStmt db (insert_sql system) of
        Inl e \<Rightarrow> (Inl e, db)
      | Inr st \<Rightarrow>
          (case SQLTransaction db of
             Inl e \<Rightarrow> (Inl e, db)
           | Inr db1 \<Rightarrow>
               (case populate_recursive relativeTo extensions relativeTo tree db1 st of
                  (Inl e, db2) \<Rightarrow> unwind e db2
                | (Inr b, db2) \<Rightarrow>
                    (case commit db2 of
                       (Inl e, db3) \<Rightarrow> unwind e db3
                     | (Inr u, db3) \<Rightarrow> (Inr (), db3)))))"


section \<open>Refreshing the existence flags\<close>

text \<open>
  What \<open>boost::filesystem::exists\<close> finds at a path: a file, nothing, or an error of the
  status query other than "not found" (the call throws).
\<close>

datatype file_status = Found | NotFound | StatusError

type_synonym filesystem = "path \<Rightarrow> file_status"

definition fs_exists :: "filesystem \<Rightarrow> path \<Rightarrow> error + bool" where
  "fs_exists fs p =
     (case fs p of
        Found \<Rightarrow> Inr True
      | NotFound \<Rightarrow> Inr False
      | StatusError \<Rightarrow> Inl filesystem_error)"

text \<open>
  The identifiers \<open>SELECT fileid FROM files WHERE systemid = ...\<close> steps through. The engine
  answers this query from the index of the primary key \<open>(fileid, systemid)\<close>, which holds
  all it asks for: the identifiers come in the order of their bytes.
\<close>

fun select_fileid :: "stmt \<Rightarrow> sqlite3 \<Rightarrow> string list" where
  "select_fileid (SelectFileid sid) db =
     sort (map fileid (filter (\<lambda>r. systemid r = sid) (current db)))"
| "select_fileid st db = []"

text \<open>
  The \<open>while\<close> loop of \<open>updateExists\<close> over the identifiers the read statement yields. The
  update touches no key, so the read statement yields the identifiers that were there when
  the loop began. Of the calls in the loop the program checks the step and the reset of the
  update statement; the steps of the read statement and the two binds are taken to succeed.
\<close>

fun updateExists_loop ::
    "path \<Rightarrow> filesystem \<Rightarrow> string list \<Rightarrow> sqlite3 \<Rightarrow> stmt \<Rightarrow> (error + unit) \<times> sqlite3" where
  "updateExists_loop relativeTo fs [] db st = (Inr (), db)"
| "updateExists_loop relativeTo fs (p # ps) db (UpdateExists sid) =
     (case fs_exists fs (case p of c # cs \<Rightarrow> if c = CHR ''.'' then relativeTo @ ''/'' @ p else p
                                | [] \<Rightarrow> p) of
        Inl e \<Rightarrow> (Inl e, db)
      | Inr ex \<Rightarrow>
          (case sqlite3_step (update_fileexists (if ex then 1 else 0) p sid) db of
             (a1, db1) \<Rightarrow>
               if a1 = Done
               then (case sqlite3_reset db1 of
                       (a2, db2) \<Rightarrow>
                         if a2 = Done
                         then updateExists_loop relativeTo fs ps db2 (UpdateExists sid)
                         else (Inl (DBException ResetError), db2))
               else (Inl (DBException StepFailed), db1)))"
| "updateExists_loop relativeTo fs (p # ps) db st = (Inl unmodelled, db)"

definition read_sql :: "'a SystemData_scheme \<Rightarrow> string" where
  "read_sql system = select_head @ getName system"

definition update_sql :: "'a SystemData_scheme \<Rightarrow> string" where
  "update_sql system = update_head @ getName system"

definition updateExists ::
    "'a SystemData_scheme \<Rightarrow> filesystem \<Rightarrow> sqlite3 \<Rightarrow> (error + unit) \<times> sqlite3" where
  "updateExists system fs db =
     (let relativeTo = getStartPath system in
      case SQLPreparedStmt db (read_sql system) of
        Inl e \<Rightarrow> (Inl e, db)
      | Inr readStmt \<Rightarrow>
          (case SQLPreparedStmt db (update_sql system) of
             Inl e \<Rightarrow> (Inl e, db)
           | Inr updateStmt \<Rightarrow>
               (case SQLTransaction db of
                  Inl e \<Rightarrow> (Inl e, db)
                | Inr db1 \<Rightarrow>
                    (case updateExists_loop relativeTo fs (select_fileid readStmt db1) db1 updateStmt of
                       (Inl e, db2) \<Rightarrow> unwind e db2
                     | (Inr u, db2) \<Rightarrow>
                         (case commit db2 of
                            (Inl e, db3) \<Rightarrow> unwind e db3
                          | (Inr u, db3) \<Rightarrow> (Inr (), db3))))))"


section \<open>Reading and writing one record\<close>

text \<open>
  Modelled from the spec: \<open>MetaDataMap\<close>, a class that \<open>GamelistDB.cpp\<close> uses and does
  not define.
  A record of one kind holds a value for each field key of its catalogue; a fresh one holds
  the catalogue's defaults ("fields absent in the markup keep the catalog's default"), and a
  key that was never set reads as the empty string.
\<close>

record MetaDataMap =
  getType :: MetaDataListType
  getMDD :: "MetaDataDecl list"
  mdmap :: "(string \<times> string) list"

definition MetaDataMap_new :: "(MetaDataListType \<Rightarrow> MetaDataDecl list) \<Rightarrow> MetaDataListType \<Rightarrow> MetaDataMap" where
  "MetaDataMap_new getMDDMap ty =
     \<lparr>getType = ty, getMDD = getMDDMap ty,
      mdmap = map (\<lambda>d. (key d, defaultValue d)) (getMDDMap ty)\<rparr>"

fun assoc_set :: "string \<Rightarrow> string \<Rightarrow> (string \<times> string) list \<Rightarrow> (string \<times> string) list" where
  "assoc_set k v [] = [(k, v)]"
| "assoc_set k v ((k', v') # kvs) =
     (if k' = k then (k, v) # kvs else (k', v') # assoc_set k v kvs)"

definition md_set :: "string \<Rightarrow> string \<Rightarrow> MetaDataMap \<Rightarrow> MetaDataMap" where
  "md_set k v m = m\<lparr>mdmap := assoc_set k v (mdmap m)\<rparr>"

definition md_get :: "MetaDataMap \<Rightarrow> string \<Rightarrow> string" where
  "md_get m k = (case map_of (mdmap m) k of Some v \<Rightarrow> v | None \<Rightarrow> [])"

text \<open>
  The loop of \<open>getFileData\<close> over the columns from index 2 on: a column text that is a null
  pointer cannot be turned into the string \<open>set\<close> takes.
\<close>

fun set_columns :: "MetaDataMap \<Rightarrow> (string \<times> string option) list \<Rightarrow> error + MetaDataMap" where
  "set_columns mdl [] = Inr mdl"
| "set_columns mdl ((col, None) # cs) = Inl null_string"
| "set_columns mdl ((col, Some v) # cs) = set_columns (md_set col v mdl) cs"

text \<open>
  \<open>getFileData\<close> steps the \<open>SELECT\<close> once and expects \<open>SQLITE_DONE\<close>. With a row for the
  key the step answers \<open>SQLITE_ROW\<close>. Without one the statement has no current row: column
  1 reads as the integer 0 and every column text is a null pointer.
\<close>

definition getFileData ::
    "(MetaDataListType \<Rightarrow> MetaDataDecl list) \<Rightarrow> sqlite3 \<Rightarrow> string \<Rightarrow> string \<Rightarrow> error + MetaDataMap" where
  "getFileData getMDDMap db fileID systemID =
     (case SQLPreparedStmt db select_row_sql of
        Inl e \<Rightarrow> Inl e
      | Inr readStmt \<Rightarrow>
          (if filter (\<lambda>r. row_key r = (fileID, systemID)) (current db) \<noteq> []
           then Inl (DBException StepFailed)
           else set_columns (MetaDataMap_new getMDDMap GAME_METADATA)
                  (map (\<lambda>c. (c, None)) (drop 2 (column_names db)))))"

text \<open>
  \<open>setFileData\<close> writes one placeholder per field of the record's catalogue, binds the
  key, the kind, the existence flag 1 and the field values (binds that it does not check
  and that are taken to succeed), and steps with \<open>step_expected(SQLITE_DONE)\<close>.
\<close>

definition setFileData ::
    "string \<Rightarrow> string \<Rightarrow> MetaDataMap \<Rightarrow> sqlite3 \<Rightarrow> (error + unit) \<times> sqlite3" where
  "setFileData fileID systemID metadata db =
     (let mdd = getMDD metadata in
      case SQLPreparedStmt db (replace_sql (length mdd)) of
        Inl e \<Rightarrow> (Inl e, db)
      | Inr InsertReplace \<Rightarrow>
          (case sqlite3_step (insert_or_replace
                  \<lparr>fileid = fileID, systemid = systemID,
                   filetype = Flag (getType metadata = FOLDER_METADATA),
                   fileexists = Some 1,
                   mdvalues = map (\<lambda>d. Some (md_get metadata (key d))) mdd\<rparr>) db of
             (a, db') \<Rightarrow>
               if a = Done then (Inr (), db') else (Inl (DBException StepFailed), db'))
      | Inr st \<Rightarrow> (Inl unmodelled, db))"


section \<open>Importing an interchange document\<close>

text \<open>An element of the document: its name, its text and its child elements.\<close>

datatype xml_node = Node (tag: string) (text_of: string) (children: "xml_node list")

definition child :: "xml_node \<Rightarrow> string \<Rightarrow> xml_node option" where
  "child n nm = find (\<lambda>c. tag c = nm) (children n)"

definition child_text :: "xml_node \<Rightarrow> string \<Rightarrow> string" where
  "child_text n nm = (case child n nm of Some c \<Rightarrow> text_of c | None \<Rightarrow> [])"

text \<open>
  The log: the line announcing the import (file and collection name) and one warning for
  each file that does not exist (the path it was looked for at).
\<close>

datatype log_entry = LogInfo string string | LogWarning path

fun fill_metadata :: "path \<Rightarrow> xml_node \<Rightarrow> MetaDataDecl list \<Rightarrow> MetaDataMap \<Rightarrow> MetaDataMap" where
  "fill_metadata relativeTo fileNode [] mdl = mdl"
| "fill_metadata relativeTo fileNode (d # ds) mdl =
     fill_metadata relativeTo fileNode ds
       (case child fileNode (key d) of
          None \<Rightarrow> mdl
        | Some md \<Rightarrow>
            md_set (key d)
              (if mdtype d = MD_IMAGE_PATH then resolvePath (text_of md) relativeTo True
               else text_of md) mdl)"

text \<open>The path a node names, resolved against the collection root.\<close>

definition node_path :: "'a SystemData_scheme \<Rightarrow> xml_node \<Rightarrow> path" where
  "node_path system fileNode = resolvePath (child_text fileNode ''path'') (getStartPath system) False"

text \<open>"Make a metadata map": the defaults of the kind, overwritten by the node's children.\<close>

definition node_metadata ::
    "(MetaDataListType \<Rightarrow> MetaDataDecl list) \<Rightarrow> 'a SystemData_scheme \<Rightarrow> MetaDataListType
      \<Rightarrow> xml_node \<Rightarrow> MetaDataMap" where
  "node_metadata getMDDMap system ty fileNode =
     fill_metadata (getStartPath system) fileNode (getMDDMap ty) (MetaDataMap_new getMDDMap ty)"

text \<open>The inner loop of \<open>importXML\<close> over the nodes of one tag, with the local \<open>skipCount\<close>.\<close>

fun import_nodes ::
    "(MetaDataListType \<Rightarrow> MetaDataDecl list) \<Rightarrow> 'a SystemData_scheme \<Rightarrow> filesystem
      \<Rightarrow> MetaDataListType \<Rightarrow> xml_node list \<Rightarrow> sqlite3 \<Rightarrow> 32 word \<Rightarrow> log_entry list
      \<Rightarrow> (error + unit) \<times> sqlite3 \<times> 32 word \<times> log_entry list" where
  "import_nodes getMDDMap system fs ty [] db skipCount lg = (Inr (), db, skipCount, lg)"
| "import_nodes getMDDMap system fs ty (fileNode # rest) db skipCount lg =
     (case fs_exists fs (node_path system fileNode) of
        Inl e \<Rightarrow> (Inl e, db, skipCount, lg)
      | Inr ex \<Rightarrow>
          (if \<not> ex
           then import_nodes getMDDMap system fs ty rest db (skipCount + 1)
                  (lg @ [LogWarning (node_path system fileNode)])
           else if md_get (node_metadata getMDDMap system ty fileNode) ''name'' = []
             then (Inl assertion_failed, db, skipCount, lg)
           else
             (case setFileData (pathToFileID (node_path system fileNode) (getStartPath system))
                     (getName system) (node_metadata getMDDMap system ty fileNode) db of
                (Inl e, db') \<Rightarrow> (Inl e, db', skipCount, lg)
              | (Inr u, db') \<Rightarrow>
                  import_nodes getMDDMap system fs ty rest db' skipCount lg)))"

text \<open>The outer loop: all \<open>game\<close> nodes, then all \<open>folder\<close> nodes, in document order.\<close>

definition import_tags ::
    "(MetaDataListType \<Rightarrow> MetaDataDecl list) \<Rightarrow> 'a SystemData_scheme \<Rightarrow> filesystem
      \<Rightarrow> xml_node \<Rightarrow> sqlite3 \<Rightarrow> log_entry list
      \<Rightarrow> (error + unit) \<times> sqlite3 \<times> 32 word \<times> log_entry list" where
  "import_tags getMDDMap system fs root db lg =
     (case import_nodes getMDDMap system fs GAME_METADATA
             (filter (\<lambda>n. tag n = ''game'') (children root)) db 0 lg of
        (Inl e, db1, skip1, lg1) \<Rightarrow> (Inl e, db1, skip1, lg1)
      | (Inr u, db1, skip1, lg1) \<Rightarrow>
          import_nodes getMDDMap system fs FOLDER_METADATA
            (filter (\<lambda>n. tag n = ''folder'') (children root)) db1 skip1 lg1)"

text \<open>
  \<open>importXML\<close> returns nothing: of the loops' results the caller sees the store and the
  log. \<open>load_file\<close> is the document parser: the elements at the top of the document, or
  nothing when the file does not parse.
\<close>

definition importXML ::
    "(MetaDataListType \<Rightarrow> MetaDataDecl list) \<Rightarrow> 'a SystemData_scheme \<Rightarrow> path \<Rightarrow> filesystem
      \<Rightarrow> (path \<Rightarrow> xml_node list option) \<Rightarrow> sqlite3
      \<Rightarrow> (error + unit) \<times> sqlite3 \<times> log_entry list" where
  "importXML getMDDMap system xml_path fs load_file db =
     (let lg = [LogInfo xml_path (getName system)] in
      case fs_exists fs xml_path of
        Inl e \<Rightarrow> (Inl e, db, lg)
      | Inr ex \<Rightarrow>
          (if \<not> ex then (Inl (ESException XMLNotFound), db, lg)
           else
             (case load_file xml_path of
                None \<Rightarrow> (Inl (ESException XMLParseError), db, lg)
              | Some doc \<Rightarrow>
                  (case find (\<lambda>n. tag n = ''gameList'') doc of
                     None \<Rightarrow> (Inl (ESException NoGameListNode), db, lg)
                   | Some root \<Rightarrow>
                       (case import_tags getMDDMap system fs root db lg of
                          (r, db', skipCount, lg') \<Rightarrow> (r, db', lg'))))))"


section \<open>Example data\<close>

definition example_catalog :: "MetaDataDecl list" where
  "example_catalog =
     [\<lparr>key = ''name'', mdtype = MD_STRING, defaultValue = []\<rparr>,
      \<lparr>key = ''image'', mdtype = MD_IMAGE_PATH, defaultValue = []\<rparr>,
      \<lparr>key = ''genre'', mdtype = MD_STRING, defaultValue = ''unknown''\<rparr>]"

definition example_mdd :: "MetaDataListType \<Rightarrow> MetaDataDecl list" where
  "example_mdd ty = example_catalog"

definition empty_store :: sqlite3 where
  "empty_store = createTables example_catalog"

text \<open>
  A collection whose name is written as an SQL string literal, one with a bare name, and
  one whose name goes on after the literal with an upsert clause.
\<close>

definition nes_system :: SystemData where
  "nes_system =
     \<lparr>getName = quote # ''nes'' @ [quote], getStartPath = ''/roms/nes'',
      getExtensions = [''.nes'']\<rparr>"

definition plain_system :: SystemData where
  "plain_system =
     \<lparr>getName = ''nes'', getStartPath = ''/roms/nes'', getExtensions = [''.nes'']\<rparr>"

definition upsert_system :: SystemData where
  "upsert_system =
     \<lparr>getName = quote # ''nes'' @ quote #
                  '', ?2) ON CONFLICT (fileid, systemid) DO UPDATE SET name = NULL --'',
      getStartPath = ''/roms/nes'', getExtensions = [''.nes'']\<rparr>"

definition nes_tree :: node where
  "nes_tree = Dir [(''a.nes'', File), (''sub'', Dir [(''b.nes'', File)])]"


text \<open>
  The store after a scan of \<open>nes_tree\<close>; a disk on which \<open>sub/b.nes\<close> has been deleted
  since; a disk on which the status of \<open>sub/b.nes\<close> cannot be queried; and a disk with
  nothing on it.
\<close>

definition scanned_store :: sqlite3 where
  "scanned_store = snd (addMissingFiles nes_system nes_tree empty_store)"

definition disk_fs :: filesystem where
  "disk_fs p =
     (if p \<in> set [''/roms/nes/.'', ''/roms/nes/./a.nes'', ''/roms/nes/./sub'',
                   ''/roms/nes/a.nes'', ''/roms/nes/sub'', ''/roms/nes/gamelist.xml'']
      then Found else NotFound)"


definition empty_disk :: filesystem where
  "empty_disk p = NotFound"

text \<open>
  An engine that answers the next \<open>n\<close> checked calls with success and the one after them
  with \<open>a\<close>. A scan makes four checked calls for each file it adds (bind, bind, step, reset)
  and one for its commit; a refresh makes two for each record (step, reset) and one for its
  commit.
\<close>

definition engine_fails :: "nat \<Rightarrow> answer \<Rightarrow> sqlite3 \<Rightarrow> sqlite3" where
  "engine_fails n a db = db\<lparr>answers := replicate n Done @ [a]\<rparr>"

text \<open>
  An interchange document with two \<open>game\<close> nodes, the second for a file that is not on
  the disk, and the parser that finds it at \<open>/roms/nes/gamelist.xml\<close>.
\<close>

definition mario_node :: xml_node where
  "mario_node = Node ''game'' [] [Node ''path'' ''./a.nes'' [], Node ''name'' ''Mario'' []]"

definition gone_node :: xml_node where
  "gone_node = Node ''game'' [] [Node ''path'' ''./gone.nes'' [], Node ''name'' ''Gone'' []]"

definition example_root :: xml_node where
  "example_root = Node ''gameList'' [] [mario_node, gone_node]"

definition example_doc :: "xml_node list" where
  "example_doc = [example_root]"

definition example_load :: "path \<Rightarrow> xml_node list option" where
  "example_load p = (if p = ''/roms/nes/gamelist.xml'' then Some example_doc else None)"

text \<open>The same document with no name for the file that exists.\<close>

definition nameless_node :: xml_node where
  "nameless_node = Node ''game'' [] [Node ''path'' ''./a.nes'' []]"

definition nameless_load :: "path \<Rightarrow> xml_node list option" where
  "nameless_load p =
     (if p = ''/roms/nes/gamelist.xml''
      then Some [Node ''gameList'' [] [nameless_node, gone_node]] else None)"

text \<open>
  A document with a \<open>folder\<close> node for a directory that exists, and catalogues of which the
  one of kind folder has fewer fields than the one of kind game, from which the table is made.
\<close>

definition sub_node :: xml_node where
  "sub_node = Node ''folder'' [] [Node ''path'' ''./sub'' [], Node ''name'' ''Sub'' []]"

definition folder_load :: "path \<Rightarrow> xml_node list option" where
  "folder_load p =
     (if p = ''/roms/nes/gamelist.xml''
      then Some [Node ''gameList'' [] [sub_node, gone_node]] else None)"

definition folder_mdd :: "MetaDataListType \<Rightarrow> MetaDataDecl list" where
  "folder_mdd ty = (if ty = FOLDER_METADATA then take 1 example_catalog else example_catalog)"

text \<open>Records of kind game with a name, as a caller of \<open>setFileData\<close> would pass them.\<close>

definition example_record :: MetaDataMap where
  "example_record = md_set ''name'' ''Mario'' (MetaDataMap_new example_mdd GAME_METADATA)"

definition old_record :: MetaDataMap where
  "old_record = md_set ''name'' ''Old name'' (MetaDataMap_new example_mdd GAME_METADATA)"

text \<open>
  The store after a scan of \<open>nes_tree\<close> for \<open>upsert_system\<close> and a write of the metadata of
  \<open>./a.nes\<close> under the collection identifier that the scan has stored.
\<close>

definition edited_store :: sqlite3 where
  "edited_store =
     snd (setFileData ''./a.nes'' ''nes'' example_record
       (snd (addMissingFiles upsert_system nes_tree empty_store)))"

text \<open>
  A store that holds, under the name of \<open>nes_system\<close> as \<open>importXML\<close> files it, an older
  record for \<open>./a.nes\<close> and after it a record for \<open>./z.nes\<close>.
\<close>

definition old_store :: sqlite3 where
  "old_store =
     snd (setFileData ''./z.nes'' (getName nes_system) example_record
       (snd (setFileData ''./a.nes'' (getName nes_system) old_record empty_store)))"

text \<open>The store after the scan of \<open>nes_tree\<close> and the import of the example document.\<close>

definition mixed_store :: sqlite3 where
  "mixed_store =
     fst (snd (importXML example_mdd nes_system ''/roms/nes/gamelist.xml'' disk_fs example_load
       scanned_store))"


section \<open>Auxiliary notions\<close>

text \<open>
  How the rows of a transaction may change under the steps of a statement: the scanner's
  plain insert only adds rows at the end.
\<close>

definition grows :: "stmt \<Rightarrow> table \<Rightarrow> table \<Rightarrow> bool" where
  "grows st t t' = (case st of InsertIgnore sid \<Rightarrow> prefix t t' | _ \<Rightarrow> True)"

text \<open>
  A run \<open>r\<close> of checked calls of statement \<open>st\<close> that began inside the transaction of
  \<open>db\<close>: the columns and the committed rows are as before; the transaction is still open, its
  rows changed as the statement changes them, or it is gone and the run has failed.
\<close>

definition inside :: "stmt \<Rightarrow> sqlite3 \<Rightarrow> (error + 'a) \<times> sqlite3 \<Rightarrow> bool" where
  "inside st db r \<longleftrightarrow>
     columns (snd r) = columns db \<and> stored (snd r) = stored db \<and>
     (case active (snd r) of
        None \<Rightarrow> (case fst r of Inl e \<Rightarrow> True | Inr x \<Rightarrow> False)
      | Some t' \<Rightarrow> (case active db of None \<Rightarrow> False | Some t \<Rightarrow> grows st t t'))"


text \<open>The kind under which \<open>importXML\<close> reads a node: by its tag.\<close>

definition node_kind :: "xml_node \<Rightarrow> MetaDataListType" where
  "node_kind n = (if tag n = ''game'' then GAME_METADATA else FOLDER_METADATA)"


section \<open>The statements the engine accepts\<close>

lemma not_insert_select: "\<not> prefix insert_head (select_head @ s)"
  by (simp add: insert_head_def select_head_def)



lemma not_insert_replace: "\<not> prefix insert_head (replace_head @ s)"
  by (simp add: insert_head_def replace_head_def)

lemma not_select_replace: "\<not> prefix select_head (replace_head @ s)"
  by (simp add: select_head_def replace_head_def)

lemma not_update_replace: "\<not> prefix update_head (replace_head @ s)"
  by (simp add: update_head_def replace_head_def)

lemma not_row_replace: "replace_head @ s \<noteq> select_row_sql"
  by (simp add: select_row_sql_def replace_head_def)

lemma not_insert_row: "\<not> prefix insert_head select_row_sql"
  by (simp add: insert_head_def select_row_sql_def)

lemma not_select_row: "\<not> prefix select_head select_row_sql"
  by (simp add: select_head_def select_row_sql_def)

lemma not_update_row: "\<not> prefix update_head select_row_sql"
  by (simp add: update_head_def select_row_sql_def)

lemma prepare_select_row: "SQLPreparedStmt db select_row_sql = Inr SelectRow"
  unfolding SQLPreparedStmt_def Let_def
  by (simp only: not_insert_row not_select_row not_update_row simp_thms if_False if_True)

lemma insert_tail_cut:
  "suffix insert_tail (s @ insert_tail)"
  "take (length (s @ insert_tail) - length insert_tail) (s @ insert_tail) = s"
  by (simp_all add: suffix_def)

lemma prepare_insert:
  "SQLPreparedStmt db (insert_sql system) = insert_operand (column_names db) (getName system)"
proof -
  have 1: "prefix insert_head (insert_head @ getName system @ insert_tail)" by simp
  have 2: "drop (length insert_head) (insert_head @ getName system @ insert_tail) = getName system @ insert_tail"
    by simp
  show ?thesis
    unfolding SQLPreparedStmt_def Let_def insert_sql_def
    by (simp only: 1 2 insert_tail_cut simp_thms if_True)
qed

lemma prepare_read:
  "SQLPreparedStmt db (read_sql system) = with_operand SelectFileid (column_names db) (getName system)"
proof -
  have 1: "prefix select_head (select_head @ getName system)" by simp
  have 2: "drop (length select_head) (select_head @ getName system) = getName system" by simp
  show ?thesis
    unfolding SQLPreparedStmt_def Let_def read_sql_def
    by (simp only: 1 2 not_insert_select simp_thms if_True if_False)
qed


lemma length_placeholders: "n \<le> length (placeholders i n)"
proof (induction n arbitrary: i)
  case 0
  show ?case by simp
next
  case (Suc n)
  from Suc [of "Suc i"] show ?case by simp
qed

lemma prepare_replace:
  assumes "0 < length (columns db)"
  shows "SQLPreparedStmt db (replace_sql (length (columns db))) = Inr InsertReplace"
proof -
  let ?n = "length (columns db)"
  have "?n \<le> length (replace_sql ?n)"
    using length_placeholders [of ?n 0] by (simp add: replace_sql_def)
  then have "?n \<in> set [0..<Suc (length (replace_sql ?n))]" by auto
  then have 1: "list_ex (\<lambda>m. replace_sql ?n = replace_sql m) [0..<Suc (length (replace_sql ?n))]"
    unfolding list_ex_iff by blast
  have 2: "\<not> prefix insert_head (replace_sql ?n)" "\<not> prefix select_head (replace_sql ?n)"
    "\<not> prefix update_head (replace_sql ?n)" "replace_sql ?n \<noteq> select_row_sql"
    unfolding replace_sql_def
    by (rule not_insert_replace not_select_replace not_update_replace not_row_replace)+
  show ?thesis
    unfolding SQLPreparedStmt_def Let_def
    using assms by (simp only: 1 2 simp_thms if_True if_False)
qed


lemma with_operand_Rejected:
  "sql_operand cols s = Rejected \<Longrightarrow> with_operand mk cols s = Inl (DBException PrepareError)"
  by (simp add: with_operand_def)

lemma with_operand_Inr:
  "with_operand mk cols s = Inr st \<Longrightarrow> \<exists>v. sql_operand cols s = Literal v \<and> st = mk v"
  by (auto simp: with_operand_def split: operand.splits)

lemma insert_operand_Literal:
  "sql_operand cols s = Literal v \<Longrightarrow> insert_operand cols s = Inr (InsertIgnore v)"
  by (simp add: insert_operand_def)

lemma insert_operand_Rejected:
  "sql_operand cols s = Rejected \<Longrightarrow> insert_operand cols s = Inl (DBException PrepareError)"
  by (simp add: insert_operand_def)


section \<open>Transactions and the scan\<close>

lemma commit_gone: "active db = None \<Longrightarrow> commit db = (Inl (DBException CommitError), db)"
  by (simp add: commit_def)

lemma commit_done:
  "active db = Some t \<Longrightarrow> fst (next_answer db) = Done \<Longrightarrow>
     commit db = (Inr (), (snd (next_answer db))\<lparr>stored := t, active := None\<rparr>)"
  by (cases "next_answer db") (simp add: commit_def)

lemma begin_None: "active db = None \<Longrightarrow> SQLTransaction db = Inr (db\<lparr>active := Some (stored db)\<rparr>)"
  by (simp add: SQLTransaction_def)

lemma begin_Some: "active db = Some t \<Longrightarrow> SQLTransaction db = Inl (DBException BeginError)"
  by (simp add: SQLTransaction_def)

lemma next_answer_keeps:
  "next_answer db = (a, db') \<Longrightarrow>
     columns db' = columns db \<and> stored db' = stored db \<and> active db' = active db"
  by (auto simp: next_answer_def split: list.splits)



lemma sqlite3_step_inside:
  assumes "active db = Some t" and "sqlite3_step f db = (a, db')"
  shows "columns db' = columns db \<and> stored db' = stored db
       \<and> active db' = (case a of Done \<Rightarrow> Some (f t) | Failed \<Rightarrow> Some t | RolledBack \<Rightarrow> None)"
proof (cases "next_answer db")
  case (Pair b db1)
  from next_answer_keeps [OF Pair] assms Pair show ?thesis
    by (cases b) (auto simp: sqlite3_step_def db_write_def)
qed

lemma grows_refl: "grows st t t"
  by (simp add: grows_def split: stmt.splits)

lemma grows_trans: "grows st t t' \<Longrightarrow> grows st t' t'' \<Longrightarrow> grows st t t''"
  by (auto simp: grows_def split: stmt.splits)

lemma grows_step: "insert_step st db fid = Some f \<Longrightarrow> grows st t (f t)"
  by (cases st) (auto simp: grows_def insert_or_ignore_def)

lemma inside_refl: "active db = Some t \<Longrightarrow> inside st db (res, db)"
  by (simp add: inside_def grows_refl)

lemma inside_trans: "inside st db (Inr x, db1) \<Longrightarrow> inside st db1 r \<Longrightarrow> inside st db r"
  by (auto simp: inside_def split: option.splits sum.splits dest: grows_trans)

lemma inside_error: "inside st db (res, db') \<Longrightarrow> inside st db (Inl e, db')"
  by (auto simp: inside_def split: option.splits sum.splits)

lemma inside_value: "inside st db (Inr x, db') \<Longrightarrow> inside st db (Inr y, db')"
  by (auto simp: inside_def split: option.splits sum.splits)

lemma inside_open: "inside st db (Inr x, db') \<Longrightarrow> \<exists>t'. active db' = Some t'"
  by (auto simp: inside_def split: option.splits)


lemma add_file_inside:
  assumes "active db = Some t"
  shows "inside st db (add_file fid ft db st)"
proof (cases "insert_step st db fid")
  case None
  with assms show ?thesis by (simp add: add_file_def inside_refl)
next
  case (Some f)
  obtain a1 db1 where c1: "sqlite3_bind db = (a1, db1)" by (cases "sqlite3_bind db")
  obtain a2 db2 where c2: "sqlite3_bind db1 = (a2, db2)" by (cases "sqlite3_bind db1")
  obtain a3 db3 where c3: "sqlite3_step f db2 = (a3, db3)" by (cases "sqlite3_step f db2")
  obtain a4 db4 where c4: "sqlite3_reset db3 = (a4, db4)" by (cases "sqlite3_reset db3")
  from c1 have k1: "columns db1 = columns db" "stored db1 = stored db" "active db1 = Some t"
    using next_answer_keeps [of db a1 db1] assms by (simp_all add: sqlite3_bind_def)
  from c2 have k2: "columns db2 = columns db" "stored db2 = stored db" "active db2 = Some t"
    using next_answer_keeps [of db1 a2 db2] k1 by (simp_all add: sqlite3_bind_def)
  from sqlite3_step_inside [OF k2(3) c3] k2
  have k3: "columns db3 = columns db" "stored db3 = stored db"
    "active db3 = (case a3 of Done \<Rightarrow> Some (f t) | Failed \<Rightarrow> Some t | RolledBack \<Rightarrow> None)"
    by simp_all
  from c4 have k4: "columns db4 = columns db3" "stored db4 = stored db3" "active db4 = active db3"
    using next_answer_keeps [of db3 a4 db4] by (simp_all add: sqlite3_reset_def)
  have g: "grows st t (f t)" using Some by (rule grows_step)
  show ?thesis
    using assms k1 k2 k3 k4 g
    by (cases a3) (auto simp: add_file_def Some c1 c2 c3 c4 inside_def grows_refl)
qed

lemma populate_inside:
  "active db = Some t \<Longrightarrow> inside st db (populate_recursive rel exts dir n db st)"
  "active db = Some t \<Longrightarrow> inside st db (populate_entries rel exts dir es has db st)"
proof (induction rel exts dir n db st and rel exts dir es has db st
       arbitrary: t and t rule: populate_recursive_populate_entries.induct)
  case (1 relativeTo exts start_dir es db st)
  let ?r = "populate_entries relativeTo exts start_dir es False db st"
  from 1 have e1: "inside st db ?r" by simp
  show ?case
  proof (cases ?r)
    case (Pair res db')
    show ?thesis
    proof (cases res)
      case (Inl e)
      with Pair e1 show ?thesis by simp
    next
      case (Inr b)
      from e1 Pair Inr have e1': "inside st db (Inr b, db')" by simp
      show ?thesis
      proof (cases b)
        case True
        from inside_open [OF e1'] obtain t' where t': "active db' = Some t'" by blast
        let ?a = "add_file (pathToFileID start_dir relativeTo) FOLDER db' st"
        have e2: "inside st db' ?a" using t' by (rule add_file_inside)
        note e3 = inside_trans [OF e1' e2]
        show ?thesis
        proof (cases ?a)
          case inner: (Pair res2 db'')
          show ?thesis
          proof (cases res2)
            case (Inl e)
            from e3 inner Inl have "inside st db (Inl e, db'')"
              using inside_error by fastforce
            with Pair Inr True inner Inl show ?thesis by simp
          next
            case u: (Inr u)
            from e3 inner u have "inside st db (Inr True, db'')"
              using inside_value by fastforce
            with Pair Inr True inner u show ?thesis by simp
          qed
        qed
      next
        case False
        with Pair Inr e1 show ?thesis by simp
      qed
    qed
  qed
next
  case (2 relativeTo exts start_dir db st)
  then show ?case by (simp add: inside_refl)
next
  case (3 relativeTo exts start_dir db st)
  then show ?case by (simp add: inside_refl)
next
  case (4 relativeTo exts start_dir has_a_file db st)
  then show ?case by (simp add: inside_refl)
next
  case (5 relativeTo exts start_dir name n es has_a_file db st)
  show ?case
  proof (cases "is_directory n")
    case True
    let ?r = "populate_recursive relativeTo exts (path_append start_dir name) n db st"
    from 5(1) [OF True 5(5)] have e1: "inside st db ?r" .
    show ?thesis
    proof (cases ?r)
      case (Pair res db')
      show ?thesis
      proof (cases res)
        case (Inl e)
        with Pair True e1 show ?thesis by simp
      next
        case (Inr b)
        from e1 Pair Inr have e1': "inside st db (Inr b, db')" by simp
        from inside_open [OF e1'] obtain t' where t'': "active db' = Some t'" by blast
        from 5(2) [OF True Pair [symmetric] Inr t'']
        have "inside st db' (populate_entries relativeTo exts start_dir es
                (if b then True else has_a_file) db' st)" .
        from inside_trans [OF e1' this] Pair Inr True show ?thesis by simp
      qed
    qed
  next
    case False
    show ?thesis
    proof (cases "extension name \<notin> set exts")
      case True
      from 5(3) [OF False True 5(5)] False True show ?thesis by simp
    next
      case ext: False
      let ?r = "add_file (pathToFileID (path_append start_dir name) relativeTo) GAME db st"
      have e1: "inside st db ?r" using 5(5) by (rule add_file_inside)
      show ?thesis
      proof (cases ?r)
        case (Pair res db')
        show ?thesis
        proof (cases res)
          case (Inl e)
          from e1 Pair Inl have "inside st db (Inl e, db')"
            using inside_error by fastforce
          with Pair False ext Inl show ?thesis by simp
        next
          case (Inr u)
          from e1 Pair Inr have e1': "inside st db (Inr u, db')" by simp
          from inside_open [OF e1'] obtain t' where t'': "active db' = Some t'" by blast
          from 5(4) [OF False ext Pair [symmetric] Inr t'']
          have "inside st db' (populate_entries relativeTo exts start_dir es True db' st)" .
          from inside_trans [OF e1' this] Pair Inr False ext show ?thesis by simp
        qed
      qed
    qed
  qed
qed

text \<open>The scan, once its statement is prepared and its transaction begun.\<close>

lemma addMissingFiles_begun:
  fixes tree :: node
  assumes prep: "SQLPreparedStmt db (insert_sql system) = Inr st"
      and idle: "active db = None"
  defines "db1 \<equiv> db\<lparr>active := Some (stored db)\<rparr>"
  defines "r \<equiv> populate_recursive (getStartPath system) (getExtensions system)
                  (getStartPath system) tree db1 st"
  shows "addMissingFiles system tree db =
           (case fst r of
              Inl e \<Rightarrow> unwind e (snd r)
            | Inr b \<Rightarrow>
                (case fst (commit (snd r)) of
                   Inl e \<Rightarrow> unwind e (snd (commit (snd r)))
                 | Inr u \<Rightarrow> (Inr (), snd (commit (snd r)))))"
    and "inside st db1 r"
proof -
  have a1: "active db1 = Some (stored db)" by (simp add: db1_def)
  from populate_inside(1) [OF a1] show "inside st db1 r" by (simp add: r_def)
  obtain res db2 where r: "r = (res, db2)" by (cases r)
  obtain res3 db3 where c: "commit db2 = (res3, db3)" by (cases "commit db2")
  show "addMissingFiles system tree db =
           (case fst r of
              Inl e \<Rightarrow> unwind e (snd r)
            | Inr b \<Rightarrow>
                (case fst (commit (snd r)) of
                   Inl e \<Rightarrow> unwind e (snd (commit (snd r)))
                 | Inr u \<Rightarrow> (Inr (), snd (commit (snd r)))))"
    unfolding addMissingFiles_def Let_def prep
    using r c
    by (cases res; cases res3)
       (simp_all add: begin_None [OF idle] db1_def [symmetric] r_def [symmetric])
qed


section \<open>The refresh loop\<close>




section \<open>Writing a record, importing a node\<close>

lemma setFileData_ok:
  assumes "length (getMDD md) = length (columns db)" and "0 < length (columns db)"
      and "fst (next_answer db) = Done"
  shows "setFileData fid sid md db =
           (Inr (),
            db_write (insert_or_replace
              \<lparr>fileid = fid, systemid = sid,
               filetype = Flag (getType md = FOLDER_METADATA),
               fileexists = Some 1,
               mdvalues = map (\<lambda>d. Some (md_get md (key d))) (getMDD md)\<rparr>) (snd (next_answer db)))"
proof -
  obtain a db' where n: "next_answer db = (a, db')" by (cases "next_answer db")
  with assms(3) have a: "a = Done" by simp
  from prepare_replace [OF assms(2)] assms(1) n a show ?thesis
    by (simp add: setFileData_def Let_def sqlite3_step_def)
qed

lemma getMDD_fill [simp]: "getMDD (fill_metadata rel n ds m) = getMDD m"
  by (induction ds arbitrary: m) (simp_all add: md_set_def split: option.splits)

lemma getType_fill [simp]: "getType (fill_metadata rel n ds m) = getType m"
  by (induction ds arbitrary: m) (simp_all add: md_set_def split: option.splits)

lemma getMDD_node_metadata [simp]: "getMDD (node_metadata mdd system ty n) = mdd ty"
  by (simp add: node_metadata_def MetaDataMap_new_def)

lemma getType_node_metadata [simp]: "getType (node_metadata mdd system ty n) = ty"
  by (simp add: node_metadata_def MetaDataMap_new_def)

lemma import_missing:
  assumes "fs (node_path system n) = NotFound"
  shows "import_nodes mdd system fs ty (n # rest) db skipCount lg =
           import_nodes mdd system fs ty rest db (skipCount + 1)
             (lg @ [LogWarning (node_path system n)])"
  using assms by (simp add: fs_exists_def)

lemma import_present:
  assumes "fs (node_path system n) = Found"
      and "md_get (node_metadata mdd system ty n) ''name'' \<noteq> []"
      and "length (mdd ty) = length (columns db)" and "0 < length (columns db)"
      and "fst (next_answer db) = Done"
  shows "import_nodes mdd system fs ty (n # rest) db skipCount lg =
           import_nodes mdd system fs ty rest
             (db_write (insert_or_replace
                \<lparr>fileid = pathToFileID (node_path system n) (getStartPath system),
                 systemid = getName system,
                 filetype = Flag (ty = FOLDER_METADATA),
                 fileexists = Some 1,
                 mdvalues = map (\<lambda>d. Some (md_get (node_metadata mdd system ty n) (key d)))
                              (mdd ty)\<rparr>) (snd (next_answer db)))
             skipCount lg"
  using assms by (simp add: fs_exists_def setFileData_ok)

lemmas [simp del] = import_nodes.simps(2)


section \<open>Claims\<close>

subsection \<open>C1: a failure inside the transaction\<close>





subsection \<open>C2: reading a record that exists\<close>

text \<open>
  Claim C2 has \<open>getFileData\<close> fail exactly when there is no row for the key, and return the
  record when there is one. The code steps its \<open>SELECT\<close> once and expects \<open>SQLITE_DONE\<close>,
  the answer of a \<open>SELECT\<close> that has no row; a row makes the step answer \<open>SQLITE_ROW\<close>.
  Here the code is evaluated on a key that the scan has stored: it throws "Step failed!".
\<close>

theorem getFileData_on_stored_row:
  "filter (\<lambda>r. row_key r = (''./a.nes'', ''nes'')) (stored scanned_store) \<noteq> []
   \<and> getFileData example_mdd scanned_store ''./a.nes'' ''nes'' = Inl (DBException StepFailed)"
  by code_simp


subsection \<open>C3: the kind of a scanned record\<close>

text \<open>
  Claim C3 has the scan store files as kind game and directories as kind folder, under two
  different discriminator values. \<open>add_file\<close> binds \<open>FileType::GAME\<close> whatever kind it is
  called with, so the call for a directory stores what the call for a file stores. Here the
  code is evaluated on the tree of claim C4: the rows of the directory \<open>sub\<close> and of the root
  carry the discriminator of the two games.
\<close>

theorem scanned_folder_has_kind_game:
  "add_file fid FOLDER db st = add_file fid GAME db st
   \<and> map (\<lambda>r. (fileid r, filetype r))
         (stored (snd (addMissingFiles nes_system nes_tree empty_store)))
      = [(''./a.nes'', Enum GAME), (''./sub/b.nes'', Enum GAME), (''./sub'', Enum GAME),
         (''.'', Enum GAME)]"
proof
  show "add_file fid FOLDER db st = add_file fid GAME db st"
    by (simp add: add_file_def)
  show "map (\<lambda>r. (fileid r, filetype r))
         (stored (snd (addMissingFiles nes_system nes_tree empty_store)))
      = [(''./a.nes'', Enum GAME), (''./sub/b.nes'', Enum GAME), (''./sub'', Enum GAME),
         (''.'', Enum GAME)]"
    by code_simp
qed


subsection \<open>C4: the records of a scan\<close>

text \<open>
  Claim C4, as amended. Scanning the collection with root \<open>/roms/nes\<close>, allowlist \<open>.nes\<close> and
  the files \<open>/roms/nes/a.nes\<close> and \<open>/roms/nes/sub/b.nes\<close> into an empty store, under a
  collection name written as a string literal, returns normally and produces records
  exactly for the identifiers of \<open>a.nes\<close>, \<open>sub/b.nes\<close>, \<open>sub\<close> and of the collection root
  itself, in this order: the root is a directory that has a file, and is inserted as every
  such directory is. With the identifiers as modelled these are \<open>./a.nes\<close>, \<open>./sub/b.nes\<close>,
  \<open>./sub\<close> and \<open>.\<close>. This holds whatever the field catalogue of the table is.
\<close>

theorem scan_of_nes_tree:
  "fst (addMissingFiles nes_system nes_tree (createTables decl)) = Inr ()
   \<and> map fileid (stored (snd (addMissingFiles nes_system nes_tree (createTables decl))))
      = [pathToFileID ''/roms/nes/a.nes'' ''/roms/nes'',
         pathToFileID ''/roms/nes/sub/b.nes'' ''/roms/nes'',
         pathToFileID ''/roms/nes/sub'' ''/roms/nes'',
         pathToFileID ''/roms/nes'' ''/roms/nes'']
   \<and> map fileid (stored (snd (addMissingFiles nes_system nes_tree (createTables decl))))
      = [''./a.nes'', ''./sub/b.nes'', ''./sub'', ''.'']"
proof -
  have name: "sql_operand (column_names (createTables decl)) (getName nes_system) = Literal ''nes''"
    by (simp add: sql_operand_def string_literal_def nes_system_def quote_def)
  have prep: "SQLPreparedStmt (createTables decl) (insert_sql nes_system) = Inr (InsertIgnore ''nes'')"
    by (simp only: prepare_insert insert_operand_Literal [OF name])
  have idle: "active (createTables decl) = None"
    by (simp add: createTables_def)
  have ext: "extension ''a.nes'' = ''.nes''" "extension ''b.nes'' = ''.nes''"
    by (simp_all add: extension_def)
  have ids: "pathToFileID ''/roms/nes/a.nes'' ''/roms/nes'' = ''./a.nes''"
    "pathToFileID ''/roms/nes/sub/b.nes'' ''/roms/nes'' = ''./sub/b.nes''"
    "pathToFileID ''/roms/nes/sub'' ''/roms/nes'' = ''./sub''"
    "pathToFileID ''/roms/nes'' ''/roms/nes'' = ''.''"
    by (simp_all add: pathToFileID_def makeRelativePath_def)
  have run: "populate_recursive (getStartPath nes_system) (getExtensions nes_system)
                  (getStartPath nes_system) nes_tree
                  ((createTables decl)\<lparr>active := Some (stored (createTables decl))\<rparr>)
                  (InsertIgnore ''nes'')
             = (Inr True, (createTables decl)\<lparr>active := Some
                  (map (\<lambda>f. bare_row (createTables decl) f ''nes'' (Enum GAME))
                     [''./a.nes'', ''./sub/b.nes'', ''./sub'', ''.''])\<rparr>)"
    by (simp add: nes_system_def nes_tree_def path_append_def ext ids add_file_def
          sqlite3_bind_def sqlite3_step_def sqlite3_reset_def next_answer_def db_write_def
          insert_or_ignore_def bare_row_def row_key_def createTables_def)
  from addMissingFiles_begun(1) [OF prep idle, of nes_tree] run ids
  show ?thesis
    by (simp add: commit_def next_answer_def createTables_def bare_row_def comp_def)
qed

text \<open>
  Claim C4 as stated fails: the scan returns normally with four records, one of them under
  the identifier of the collection root.
\<close>

theorem scan_inserts_root:
  "fst (addMissingFiles nes_system nes_tree empty_store) = Inr ()
   \<and> pathToFileID (getStartPath nes_system) (getStartPath nes_system)
       \<in> set (map fileid (stored (snd (addMissingFiles nes_system nes_tree empty_store))))
   \<and> length (stored (snd (addMissingFiles nes_system nes_tree empty_store))) = 4"
  by code_simp


subsection \<open>C5: writing a record and reading it back\<close>

text \<open>
  Claim C5 has \<open>getFileData\<close> after \<open>setFileData\<close> on the same key return the values and the
  kind that were written. \<open>setFileData\<close> stores the row, and then \<open>getFileData\<close> finds a row
  where it expects none (see C2). Here the code is evaluated on a record of kind game named
  \<open>Mario\<close>: the write returns normally, the read throws "Step failed!".
\<close>

theorem getFileData_after_setFileData:
  "fst (setFileData ''./a.nes'' ''nes'' example_record empty_store) = Inr ()
   \<and> getFileData example_mdd (snd (setFileData ''./a.nes'' ''nes'' example_record empty_store))
        ''./a.nes'' ''nes'' = Inl (DBException StepFailed)"
  by code_simp


subsection \<open>C6: refreshing the existence flags\<close>

text \<open>
  Claim C6 has every record of the collection carry, after \<open>updateExists\<close>, the existence of
  its file. \<open>updateExists\<close> writes the collection's name into the text of its two statements,
  where the engine reads it as an expression, while \<open>setFileData\<close> binds the name as a value,
  and \<open>importXML\<close> files its records through \<open>setFileData\<close>. For the collection named
  \<open>'nes'\<close>, quotes included, the statements select and update the rows whose collection
  identifier is \<open>nes\<close>, and the imported record is filed under \<open>'nes'\<close>. Here the code is
  evaluated on the store after a scan and an import for this collection, with nothing on
  the disk: the refresh returns normally, the scanned records are flagged as missing, and
  the imported record of \<open>./a.nes\<close> keeps the flag 1.
\<close>

theorem refresh_misses_imported_record:
  "map (\<lambda>r. (fileid r, systemid r, fileexists r)) (stored mixed_store)
     = [(''./a.nes'', ''nes'', None), (''./sub/b.nes'', ''nes'', None), (''./sub'', ''nes'', None),
        (''.'', ''nes'', None), (''./a.nes'', getName nes_system, Some 1)]
   \<and> empty_disk (getStartPath nes_system @ ''/'' @ ''./a.nes'') = NotFound
   \<and> fst (updateExists nes_system empty_disk mixed_store) = Inr ()
   \<and> map (\<lambda>r. (fileid r, systemid r, fileexists r))
         (stored (snd (updateExists nes_system empty_disk mixed_store)))
     = [(''./a.nes'', ''nes'', Some 0), (''./sub/b.nes'', ''nes'', Some 0),
        (''./sub'', ''nes'', Some 0), (''.'', ''nes'', Some 0),
        (''./a.nes'', getName nes_system, Some 1)]"
  by code_simp


subsection \<open>C7: scanning again\<close>

text \<open>
  Claim C7 has a second insert of the scanner under a key that exists change nothing, so
  that scanning again never overwrites the metadata of a record. \<open>addMissingFiles\<close> writes
  the collection's name into the text of its \<open>INSERT OR IGNORE\<close>, where \<open>setFileData\<close> binds
  it as a value; a name that goes on after its literal with
  \<open>ON CONFLICT (fileid, systemid) DO UPDATE SET name = NULL\<close> makes the statement one that
  updates the row of an existing key. Here the code is evaluated for such a collection on
  the store after a first scan and a write of the name \<open>Mario\<close> for \<open>./a.nes\<close>: the second scan
  returns normally and the name of \<open>./a.nes\<close> is gone.
\<close>

theorem rescan_overwrites_metadata:
  "map (\<lambda>r. (systemid r, mdvalues r))
       (filter (\<lambda>r. fileid r = ''./a.nes'') (stored edited_store))
     = [(''nes'', [Some ''Mario'', Some [], Some ''unknown''])]
   \<and> fst (addMissingFiles upsert_system nes_tree edited_store) = Inr ()
   \<and> map (\<lambda>r. (systemid r, mdvalues r))
         (filter (\<lambda>r. fileid r = ''./a.nes'')
            (stored (snd (addMissingFiles upsert_system nes_tree edited_store))))
     = [(''nes'', [None, Some [], Some ''unknown''])]"
  by code_simp


subsection \<open>C8: importing a document with a missing file\<close>

text \<open>
  Claim C8, as amended. Take a document whose \<open>gameList\<close> has two nodes tagged \<open>game\<close> or
  \<open>folder\<close>, in any order and among any other children, one naming a file that exists and
  one naming a file that does not. Let the node of the existing file have a non-empty name
  after its fields are filled in, let the catalogue of its kind have as many fields as the
  table has catalogue columns, and let the engine answer the step of the insert with
  success. Then \<open>importXML\<close> returns normally; the rows of the store (those of the open
  transaction, if there is one) are the rows from before without the row of the existing
  file's key, followed by the one row written for it: the identifier of the file, the name
  of the collection, the kind, the existence flag 1 and the values of the catalogue's
  fields; and the log has, after the opening line, exactly one warning, for the path of the
  missing file.
\<close>

theorem import_skips_missing_file:
  assumes xml: "fs xml_path = Found"
      and doc: "load_file xml_path = Some doc"
      and root: "find (\<lambda>n. tag n = ''gameList'') doc = Some root"
      and nodes: "filter (\<lambda>n. tag n = ''game'') (children root)
                    @ filter (\<lambda>n. tag n = ''folder'') (children root) = [x, y]"
      and which: "(present, missing) = (x, y) \<or> (present, missing) = (y, x)"
      and there: "fs (node_path system present) = Found"
      and gone: "fs (node_path system missing) = NotFound"
      and named: "md_get (node_metadata mdd system (node_kind present) present) ''name'' \<noteq> []"
      and width: "length (mdd (node_kind present)) = length (columns db)"
                 "0 < length (columns db)"
      and engine: "fst (next_answer db) = Done"
  shows "importXML mdd system xml_path fs load_file db =
           (Inr (),
            (case active db of
               None \<Rightarrow>
                 (snd (next_answer db))\<lparr>stored :=
                    filter (\<lambda>r. (fileid r, systemid r) \<noteq>
                        (pathToFileID (node_path system present) (getStartPath system),
                         getName system)) (stored db)
                    @ [\<lparr>fileid = pathToFileID (node_path system present) (getStartPath system),
                        systemid = getName system,
                        filetype = Flag (node_kind present = FOLDER_METADATA),
                        fileexists = Some 1,
                        mdvalues = map (\<lambda>d. Some (md_get
                            (node_metadata mdd system (node_kind present) present) (key d)))
                          (mdd (node_kind present))\<rparr>]\<rparr>
             | Some t \<Rightarrow>
                 (snd (next_answer db))\<lparr>active := Some
                   (filter (\<lambda>r. (fileid r, systemid r) \<noteq>
                        (pathToFileID (node_path system present) (getStartPath system),
                         getName system)) t
                    @ [\<lparr>fileid = pathToFileID (node_path system present) (getStartPath system),
                        systemid = getName system,
                        filetype = Flag (node_kind present = FOLDER_METADATA),
                        fileexists = Some 1,
                        mdvalues = map (\<lambda>d. Some (md_get
                            (node_metadata mdd system (node_kind present) present) (key d)))
                          (mdd (node_kind present))\<rparr>])\<rparr>),
            [LogInfo xml_path (getName system), LogWarning (node_path system missing)])"
proof -
  let ?lg = "[LogInfo xml_path (getName system)]"
  let ?row = "\<lparr>fileid = pathToFileID (node_path system present) (getStartPath system),
                 systemid = getName system,
                 filetype = Flag (node_kind present = FOLDER_METADATA),
                 fileexists = Some 1,
                 mdvalues = map (\<lambda>d. Some (md_get
                                (node_metadata mdd system (node_kind present) present) (key d)))
                              (mdd (node_kind present))\<rparr>"
  let ?db' = "db_write (insert_or_replace ?row) (snd (next_answer db))"
  let ?games = "filter (\<lambda>n. tag n = ''game'') (children root)"
  let ?folders = "filter (\<lambda>n. tag n = ''folder'') (children root)"
  have kind_game: "n \<in> set ?games \<Longrightarrow> node_kind n = GAME_METADATA" for n
    by (simp add: node_kind_def)
  have kind_folder: "n \<in> set ?folders \<Longrightarrow> node_kind n = FOLDER_METADATA" for n
    by (simp add: node_kind_def)
  have tags: "import_tags mdd system fs root db ?lg
                = (Inr (), ?db', 1, ?lg @ [LogWarning (node_path system missing)])"
  proof -
    from nodes consider
        (gg) "?games = [x, y]" "?folders = []"
      | (gf) "?games = [x]" "?folders = [y]"
      | (ff) "?games = []" "?folders = [x, y]"
      by (auto simp: append_eq_Cons_conv Cons_eq_append_conv)
    then show ?thesis
    proof cases
      case gg
      then have k: "node_kind x = GAME_METADATA" "node_kind y = GAME_METADATA"
        using kind_game [of x] kind_game [of y] by simp_all
      from which show ?thesis
      proof
        assume "(present, missing) = (x, y)"
        then have pm: "present = x" "missing = y" by simp_all
        from there gone named width engine show ?thesis
          unfolding import_tags_def gg pm k
          by (simp add: import_present import_missing)
      next
        assume "(present, missing) = (y, x)"
        then have pm: "present = y" "missing = x" by simp_all
        from there gone named width engine show ?thesis
          unfolding import_tags_def gg pm k
          by (simp add: import_present import_missing)
      qed
    next
      case gf
      then have k: "node_kind x = GAME_METADATA" "node_kind y = FOLDER_METADATA"
        using kind_game [of x] kind_folder [of y] by simp_all
      from which show ?thesis
      proof
        assume "(present, missing) = (x, y)"
        then have pm: "present = x" "missing = y" by simp_all
        from there gone named width engine show ?thesis
          unfolding import_tags_def gf pm k
          by (simp add: import_present import_missing)
      next
        assume "(present, missing) = (y, x)"
        then have pm: "present = y" "missing = x" by simp_all
        from there gone named width engine show ?thesis
          unfolding import_tags_def gf pm k
          by (simp add: import_present import_missing)
      qed
    next
      case ff
      then have k: "node_kind x = FOLDER_METADATA" "node_kind y = FOLDER_METADATA"
        using kind_folder [of x] kind_folder [of y] by simp_all
      from which show ?thesis
      proof
        assume "(present, missing) = (x, y)"
        then have pm: "present = x" "missing = y" by simp_all
        from there gone named width engine show ?thesis
          unfolding import_tags_def ff pm k
          by (simp add: import_present import_missing)
      next
        assume "(present, missing) = (y, x)"
        then have pm: "present = y" "missing = x" by simp_all
        from there gone named width engine show ?thesis
          unfolding import_tags_def ff pm k
          by (simp add: import_present import_missing)
      qed
    qed
  qed
  obtain a db1 where n: "next_answer db = (a, db1)" by (cases "next_answer db")
  from next_answer_keeps [OF n]
  have keep: "stored db1 = stored db" "active db1 = active db" by simp_all
  have rows: "?db' =
      (case active db of
         None \<Rightarrow> (snd (next_answer db))\<lparr>stored :=
             filter (\<lambda>r. (fileid r, systemid r) \<noteq>
                 (pathToFileID (node_path system present) (getStartPath system), getName system))
               (stored db) @ [?row]\<rparr>
       | Some t \<Rightarrow> (snd (next_answer db))\<lparr>active := Some
            (filter (\<lambda>r. (fileid r, systemid r) \<noteq>
                 (pathToFileID (node_path system present) (getStartPath system), getName system))
               t @ [?row])\<rparr>)"
    using keep
    by (simp add: n db_write_def insert_or_replace_def row_key_def split: option.splits)
  from tags xml doc root
  have "importXML mdd system xml_path fs load_file db =
          (Inr (), ?db', [LogInfo xml_path (getName system), LogWarning (node_path system missing)])"
    by (simp add: importXML_def fs_exists_def Let_def)
  with rows show ?thesis by (simp only:)
qed

theorem import_skips_missing_file_witness:
  "disk_fs ''/roms/nes/gamelist.xml'' = Found
   \<and> example_load ''/roms/nes/gamelist.xml'' = Some example_doc
   \<and> find (\<lambda>n. tag n = ''gameList'') example_doc = Some example_root
   \<and> filter (\<lambda>n. tag n = ''game'') (children example_root)
         @ filter (\<lambda>n. tag n = ''folder'') (children example_root)
       = [mario_node, gone_node]
   \<and> disk_fs (node_path nes_system mario_node) = Found
   \<and> disk_fs (node_path nes_system gone_node) = NotFound
   \<and> stored old_store =
       [\<lparr>fileid = ''./a.nes'', systemid = getName nes_system, filetype = Flag False,
         fileexists = Some 1, mdvalues = [Some ''Old name'', Some [], Some ''unknown'']\<rparr>,
        \<lparr>fileid = ''./z.nes'', systemid = getName nes_system, filetype = Flag False,
         fileexists = Some 1, mdvalues = [Some ''Mario'', Some [], Some ''unknown'']\<rparr>]
   \<and> importXML example_mdd nes_system ''/roms/nes/gamelist.xml'' disk_fs example_load old_store =
       (Inr (),
        old_store\<lparr>stored :=
          [\<lparr>fileid = ''./z.nes'', systemid = getName nes_system, filetype = Flag False,
            fileexists = Some 1, mdvalues = [Some ''Mario'', Some [], Some ''unknown'']\<rparr>,
           \<lparr>fileid = ''./a.nes'', systemid = getName nes_system, filetype = Flag False,
            fileexists = Some 1, mdvalues = [Some ''Mario'', Some [], Some ''unknown'']\<rparr>]\<rparr>,
        [LogInfo ''/roms/nes/gamelist.xml'' (getName nes_system),
         LogWarning ''/roms/nes/gone.nes''])"
proof -
  have xml: "disk_fs ''/roms/nes/gamelist.xml'' = Found" by code_simp
  have doc: "example_load ''/roms/nes/gamelist.xml'' = Some example_doc" by code_simp
  have root: "find (\<lambda>n. tag n = ''gameList'') example_doc = Some example_root" by code_simp
  have nodes: "filter (\<lambda>n. tag n = ''game'') (children example_root)
         @ filter (\<lambda>n. tag n = ''folder'') (children example_root) = [mario_node, gone_node]"
    by code_simp
  have which: "(mario_node, gone_node) = (mario_node, gone_node)
                 \<or> (mario_node, gone_node) = (gone_node, mario_node)" by simp
  have there: "disk_fs (node_path nes_system mario_node) = Found" by code_simp
  have gone: "disk_fs (node_path nes_system gone_node) = NotFound" by code_simp
  have named: "md_get (node_metadata example_mdd nes_system (node_kind mario_node) mario_node)
                 ''name'' \<noteq> []"
    by code_simp
  have width: "length (example_mdd (node_kind mario_node)) = length (columns old_store)"
      "0 < length (columns old_store)"
    by code_simp+
  have engine: "fst (next_answer old_store) = Done" by code_simp
  have ids: "pathToFileID (node_path nes_system mario_node) (getStartPath nes_system) = ''./a.nes''"
    by code_simp
  have miss: "node_path nes_system gone_node = ''/roms/nes/gone.nes''" by code_simp
  have kind: "node_kind mario_node = GAME_METADATA" by code_simp
  have vals: "map (\<lambda>d. Some (md_get (node_metadata example_mdd nes_system GAME_METADATA mario_node)
                     (key d))) (example_mdd GAME_METADATA)
                = [Some ''Mario'', Some [], Some ''unknown'']"
    by code_simp
  have old: "stored old_store =
       [\<lparr>fileid = ''./a.nes'', systemid = getName nes_system, filetype = Flag False,
         fileexists = Some 1, mdvalues = [Some ''Old name'', Some [], Some ''unknown'']\<rparr>,
        \<lparr>fileid = ''./z.nes'', systemid = getName nes_system, filetype = Flag False,
         fileexists = Some 1, mdvalues = [Some ''Mario'', Some [], Some ''unknown'']\<rparr>]"
    by code_simp
  have idle: "active old_store = None" "snd (next_answer old_store) = old_store" by code_simp+
  note inst = import_skips_missing_file
    [where fs = disk_fs and xml_path = "''/roms/nes/gamelist.xml''" and load_file = example_load
       and doc = example_doc and root = example_root and x = mario_node and y = gone_node
       and present = mario_node and missing = gone_node and system = nes_system
       and mdd = example_mdd and db = old_store]
  from inst [OF xml doc root nodes which there gone named width engine]
  have "importXML example_mdd nes_system ''/roms/nes/gamelist.xml'' disk_fs example_load old_store =
       (Inr (),
        old_store\<lparr>stored :=
          [\<lparr>fileid = ''./z.nes'', systemid = getName nes_system, filetype = Flag False,
            fileexists = Some 1, mdvalues = [Some ''Mario'', Some [], Some ''unknown'']\<rparr>,
           \<lparr>fileid = ''./a.nes'', systemid = getName nes_system, filetype = Flag False,
            fileexists = Some 1, mdvalues = [Some ''Mario'', Some [], Some ''unknown'']\<rparr>]\<rparr>,
        [LogInfo ''/roms/nes/gamelist.xml'' (getName nes_system),
         LogWarning ''/roms/nes/gone.nes''])"
    by (simp add: ids miss idle kind vals old)
  with xml doc root nodes there gone old show ?thesis by blast
qed

text \<open>
  Claim C8 as stated fails. With no name in the node of the file that exists the assertion
  of \<open>importXML\<close> fails; with a catalogue of kind folder that has fewer fields than the table
  has catalogue columns, the statement of \<open>setFileData\<close> for a \<open>folder\<close> node is rejected; and
  when the engine answers the step with an error, \<open>setFileData\<close> throws. In each case the
  document names one file that exists and one that does not, the import throws, and no
  record is written.
\<close>

theorem import_throws:
  "importXML example_mdd nes_system ''/roms/nes/gamelist.xml'' disk_fs nameless_load old_store
     = (Inl assertion_failed, old_store,
        [LogInfo ''/roms/nes/gamelist.xml'' (getName nes_system)])
   \<and> importXML folder_mdd nes_system ''/roms/nes/gamelist.xml'' disk_fs folder_load old_store
     = (Inl (DBException PrepareError), old_store,
        [LogInfo ''/roms/nes/gamelist.xml'' (getName nes_system),
         LogWarning ''/roms/nes/gone.nes''])
   \<and> fst (importXML example_mdd nes_system ''/roms/nes/gamelist.xml'' disk_fs example_load
            (engine_fails 0 Failed old_store)) = Inl (DBException StepFailed)
   \<and> stored (fst (snd (importXML example_mdd nes_system ''/roms/nes/gamelist.xml'' disk_fs
            example_load (engine_fails 0 Failed old_store)))) = stored old_store"
  by code_simp


subsection \<open>C9: identifier and path\<close>

text \<open>
  Claim C9. For a path \<open>p\<close> that is the collection root or lies below it, resolving the
  identifier of \<open>p\<close> gives \<open>p\<close> back, and the identifier of the resolved path is the identifier
  again. (Both functions are modelled from the spec.)
\<close>

theorem path_identifier_inverse:
  assumes "under_root p (getStartPath system)"
  shows "fileIDToPath (pathToFileID p (getStartPath system)) system = p
     \<and> pathToFileID (fileIDToPath (pathToFileID p (getStartPath system)) system)
           (getStartPath system)
         = pathToFileID p (getStartPath system)"
proof -
  let ?r = "getStartPath system"
  have rt: "fileIDToPath (pathToFileID p ?r) system = p"
  proof (cases "p = ?r")
    case True
    then show ?thesis
      by (simp add: fileIDToPath_def pathToFileID_def makeRelativePath_def resolvePath_def)
  next
    case False
    with assms have below: "prefix (?r @ ''/'') p" by (simp add: under_root_def)
    then obtain rest where p: "p = ?r @ ''/'' @ rest" by (auto simp: prefix_def)
    show ?thesis
      using False below
      by (simp add: p fileIDToPath_def pathToFileID_def makeRelativePath_def resolvePath_def)
  qed
  then show ?thesis by simp
qed

theorem path_identifier_inverse_witness:
  "under_root ''/roms/nes/sub/b.nes'' (getStartPath nes_system)
   \<and> pathToFileID ''/roms/nes/sub/b.nes'' (getStartPath nes_system) = ''./sub/b.nes''
   \<and> fileIDToPath ''./sub/b.nes'' nes_system = ''/roms/nes/sub/b.nes''
   \<and> pathToFileID (fileIDToPath ''./sub/b.nes'' nes_system) (getStartPath nes_system)
        = ''./sub/b.nes''"
proof -
  have u: "under_root ''/roms/nes/sub/b.nes'' (getStartPath nes_system)"
    by (simp add: under_root_def nes_system_def)
  have i: "pathToFileID ''/roms/nes/sub/b.nes'' (getStartPath nes_system) = ''./sub/b.nes''"
    by (simp add: pathToFileID_def makeRelativePath_def nes_system_def)
  from path_identifier_inverse [OF u] u i show ?thesis by simp
qed


subsection \<open>C10: the collection name inside the statement text\<close>

text \<open>
  Claim C10. \<open>addMissingFiles\<close> and \<open>updateExists\<close> write the collection's name into the text
  of their statements as it is. A name that the engine cannot read as an expression (here:
  bare words that name no column) makes both operations throw when the first statement is
  prepared; the store is returned as it was, nothing has been read or written. The
  witness has the names \<open>nes\<close> and \<open>my system\<close>.
\<close>

theorem name_in_statement_text:
  assumes "sql_operand (column_names db) (getName system) = Rejected"
  shows "insert_sql system =
           ''INSERT OR IGNORE INTO files (fileid, systemid, filetype) VALUES (?1, ''
             @ getName system @ '', ?2)''
       \<and> read_sql system = ''SELECT fileid FROM files WHERE systemid = '' @ getName system
       \<and> update_sql system =
           ''UPDATE files SET fileexists = ?1 WHERE fileid = ?2 AND systemid = '' @ getName system
       \<and> addMissingFiles system tree db = (Inl (DBException PrepareError), db)
       \<and> updateExists system fs db = (Inl (DBException PrepareError), db)"
proof -
  have 1: "SQLPreparedStmt db (insert_sql system) = Inl (DBException PrepareError)"
    by (simp only: prepare_insert insert_operand_Rejected [OF assms])
  have 2: "SQLPreparedStmt db (read_sql system) = Inl (DBException PrepareError)"
    by (simp only: prepare_read with_operand_Rejected [OF assms])
  have 3: "addMissingFiles system tree db = (Inl (DBException PrepareError), db)"
    by (simp add: addMissingFiles_def 1)
  have 4: "updateExists system fs db = (Inl (DBException PrepareError), db)"
    by (simp add: updateExists_def 2)
  have 5: "insert_sql system =
           ''INSERT OR IGNORE INTO files (fileid, systemid, filetype) VALUES (?1, ''
             @ getName system @ '', ?2)''"
    by (simp add: insert_sql_def insert_head_def insert_tail_def)
  have 6: "read_sql system = ''SELECT fileid FROM files WHERE systemid = '' @ getName system"
    by (simp add: read_sql_def select_head_def)
  have 7: "update_sql system =
           ''UPDATE files SET fileexists = ?1 WHERE fileid = ?2 AND systemid = '' @ getName system"
    by (simp add: update_sql_def update_head_def)
  from 3 4 5 6 7 show ?thesis by blast
qed

theorem name_in_statement_text_witness:
  "sql_operand (column_names empty_store) (getName plain_system) = Rejected
   \<and> addMissingFiles plain_system nes_tree empty_store
        = (Inl (DBException PrepareError), empty_store)
   \<and> updateExists plain_system (\<lambda>p. Found) empty_store
        = (Inl (DBException PrepareError), empty_store)
   \<and> sql_operand (column_names empty_store) (getName (plain_system\<lparr>getName := ''my system''\<rparr>))
        = Rejected
   \<and> addMissingFiles (plain_system\<lparr>getName := ''my system''\<rparr>) nes_tree empty_store
        = (Inl (DBException PrepareError), empty_store)
   \<and> updateExists (plain_system\<lparr>getName := ''my system''\<rparr>) (\<lambda>p. Found) empty_store
        = (Inl (DBException PrepareError), empty_store)"
proof -
  have a: "sql_operand (column_names empty_store) (getName plain_system) = Rejected"
    by code_simp
  have b: "sql_operand (column_names empty_store)
             (getName (plain_system\<lparr>getName := ''my system''\<rparr>)) = Rejected"
    by code_simp
  from name_in_statement_text [OF a] name_in_statement_text [OF b] a b
  show ?thesis by blast
qed

end
